theory Spec2Isabelle
  imports Main "HOL-Library.Word" "HOL-Library.Sublist"
begin

section \<open>JavaScript strings\<close>

text \<open>
  A JavaScript string is a sequence of UTF-16 code units. String literals of the source are
  ASCII and are written through \<open>js\<close>.
\<close>

type_synonym code_unit = "16 word"
type_synonym jsstring = "code_unit list"

definition js :: "string \<Rightarrow> jsstring" where
  "js s = map (\<lambda>c. of_char c) s"

text \<open>
  \<open>String.prototype.trim\<close> strips WhiteSpace and LineTerminator code points from both
  ends: TAB, VT, FF, SP, NBSP, ZWNBSP, the Space_Separator category, and LF, CR, LS, PS.
  All of them are single code units.
\<close>

definition is_ws :: "code_unit \<Rightarrow> bool" where
  "is_ws c =
     (c \<in> {0x0009, 0x000A, 0x000B, 0x000C, 0x000D, 0x0020, 0x00A0, 0x1680,
           0x2028, 0x2029, 0x202F, 0x205F, 0x3000, 0xFEFF}
      \<or> (0x2000 \<le> c \<and> c \<le> 0x200A))"

definition trim :: "jsstring \<Rightarrow> jsstring" where
  "trim s = rev (dropWhile is_ws (rev (dropWhile is_ws s)))"

text \<open>Truthiness of a string: the empty string is falsy.\<close>

definition truthy :: "jsstring \<Rightarrow> bool" where
  "truthy s = (s \<noteq> [])"

text \<open>Truthiness of a possibly undefined string (\<open>None\<close> is \<open>undefined\<close>).\<close>

definition truthy_opt :: "jsstring option \<Rightarrow> bool" where
  "truthy_opt v = (case v of None \<Rightarrow> False | Some s \<Rightarrow> truthy s)"

section \<open>Component state and the outside world\<close>

text \<open>An entry of \<open>uploadedFiles\<close>: \<open>{ name: result.filename, id: Date.now() }\<close>.\<close>

record uploaded_file =
  name :: jsstring
  id_token :: int

text \<open>The \<open>File\<close> picked by the user; the component only hands it to \<open>onUploadFile\<close>.\<close>

record js_file =
  file_name :: jsstring
  file_bytes :: "8 word list"

text \<open>What the collaborators settle with: an error carrying \<open>message\<close>, or a result.\<close>

record js_error =
  message :: jsstring

record upload_result =
  filename :: jsstring

text \<open>Calls that leave the component, in the order they are made.\<close>

datatype effect =
    SendMessage jsstring
  | UploadFile js_file
  | DeleteFile jsstring
  | ConsoleError jsstring js_error

text \<open>
  The three \<open>useState\<close> cells, the value of the element behind \<open>fileInputRef\<close>
  (\<open>None\<close> while \<open>fileInputRef.current\<close> is null), and the trace of calls made so far.
\<close>

record state =
  input :: jsstring
  uploadStatus :: jsstring
  uploadedFiles :: "uploaded_file list"
  fileInputValue :: "jsstring option"
  effects :: "effect list"

definition initial :: state where
  "initial = \<lparr>input = [], uploadStatus = [], uploadedFiles = [],
              fileInputValue = Some [], effects = []\<rparr>"

section \<open>Events\<close>

record event =
  defaultPrevented :: bool

record keyboard_event = event +
  key :: jsstring
  shiftKey :: bool

text \<open>A change event of the file input: \<open>e.target.files\<close>, possibly absent.\<close>

record change_event =
  target_files :: "js_file list option"

definition preventDefault :: "'a event_scheme \<Rightarrow> 'a event_scheme" where
  "preventDefault e = e\<lparr>defaultPrevented := True\<rparr>"

section \<open>Input handlers\<close>

text \<open>
  \<open>handleSubmit\<close> of the component that receives \<open>isLoading\<close>:
  \<^verbatim>\<open>
  e.preventDefault();
  if (input.trim() && !isLoading) { onSendMessage(input); setInput(''); }
  \<close>
\<close>

definition handleSubmit :: "bool \<Rightarrow> 'a event_scheme \<Rightarrow> state \<Rightarrow> 'a event_scheme \<times> state" where
  "handleSubmit isLoading e s =
     (let e' = preventDefault e in
      if truthy (trim (input s)) \<and> \<not> isLoading
      then (e', s\<lparr>effects := effects s @ [SendMessage (input s)], input := []\<rparr>)
      else (e', s))"

text \<open>
  \<open>handleSubmit\<close> of \<open>frontend/src/components/ChatInterface.jsx\<close>, a component without
  the \<open>isLoading\<close> prop:
  \<^verbatim>\<open>
  e.preventDefault();
  if (input.trim()) { onSendMessage(input); setInput(''); }
  \<close>
\<close>

definition handleSubmit_frontend :: "'a event_scheme \<Rightarrow> state \<Rightarrow> 'a event_scheme \<times> state" where
  "handleSubmit_frontend e s =
     (let e' = preventDefault e in
      if truthy (trim (input s))
      then (e', s\<lparr>effects := effects s @ [SendMessage (input s)], input := []\<rparr>)
      else (e', s))"

text \<open>
  \<^verbatim>\<open>
  if (e.key === 'Enter' && !e.shiftKey) { e.preventDefault(); handleSubmit(e); }
  \<close>
\<close>

definition handleKeyDown :: "bool \<Rightarrow> keyboard_event \<Rightarrow> state \<Rightarrow> keyboard_event \<times> state" where
  "handleKeyDown isLoading e s =
     (if key e = js ''Enter'' \<and> \<not> shiftKey e
      then handleSubmit isLoading (preventDefault e) s
      else (e, s))"

definition handleKeyDown_frontend :: "keyboard_event \<Rightarrow> state \<Rightarrow> keyboard_event \<times> state" where
  "handleKeyDown_frontend e s =
     (if key e = js ''Enter'' \<and> \<not> shiftKey e
      then handleSubmit_frontend (preventDefault e) s
      else (e, s))"

text \<open>The \<open>disabled\<close> prop of the send button: \<open>!input.trim() || isLoading\<close>.\<close>

definition send_button_disabled :: "bool \<Rightarrow> state \<Rightarrow> bool" where
  "send_button_disabled isLoading s = (\<not> truthy (trim (input s)) \<or> isLoading)"

text \<open>In \<open>ChatInterface.jsx\<close>: \<open>!input.trim()\<close>.\<close>

definition send_button_disabled_frontend :: "state \<Rightarrow> bool" where
  "send_button_disabled_frontend s = (\<not> truthy (trim (input s)))"

section \<open>Attachments\<close>

text \<open>\<open>e.target.files?.[0]\<close>: undefined when the list is absent or empty.\<close>

definition first_file :: "change_event \<Rightarrow> js_file option" where
  "first_file e =
     (case target_files e of
        None \<Rightarrow> None
      | Some [] \<Rightarrow> None
      | Some (f # _) \<Rightarrow> Some f)"

text \<open>
  \<open>handleFileChange\<close> up to its \<open>await\<close>: return at once without a file, otherwise set
  the status and call \<open>onUploadFile(file)\<close>. The file returned is the one whose upload is
  now in flight.
\<close>

definition handleFileChange_start :: "change_event \<Rightarrow> state \<Rightarrow> js_file option \<times> state" where
  "handleFileChange_start e s =
     (case first_file e of
        None \<Rightarrow> (None, s)
      | Some f \<Rightarrow>
          (Some f, s\<lparr>uploadStatus := js ''Uploading...'',
                     effects := effects s @ [UploadFile f]\<rparr>))"

text \<open>\<open>if (fileInputRef.current) fileInputRef.current.value = ''\<close>\<close>

definition clear_file_input :: "state \<Rightarrow> state" where
  "clear_file_input s =
     (case fileInputValue s of
        None \<Rightarrow> s
      | Some _ \<Rightarrow> s\<lparr>fileInputValue := Some []\<rparr>)"

text \<open>
  \<open>handleFileChange\<close> from the point where \<open>onUploadFile\<close> has settled, on the state
  the component has by then; \<open>now\<close> is the reading of \<open>Date.now()\<close>.
  \<^verbatim>\<open>
  try { const result = await onUploadFile(file);
        setUploadStatus('');
        setUploadedFiles(prev => [...prev, { name: result.filename, id: Date.now() }]);
  } catch (error) { setUploadStatus(`Error: ${error.message}`); }
  if (fileInputRef.current) fileInputRef.current.value = '';
  \<close>
\<close>

definition handleFileChange_resume :: "js_error + upload_result \<Rightarrow> int \<Rightarrow> state \<Rightarrow> state" where
  "handleFileChange_resume outcome now s =
     clear_file_input
       (case outcome of
          Inr result \<Rightarrow>
            s\<lparr>uploadStatus := [],
              uploadedFiles := uploadedFiles s @ [\<lparr>name = filename result, id_token = now\<rparr>]\<rparr>
        | Inl error \<Rightarrow>
            s\<lparr>uploadStatus := js ''Error: '' @ message error\<rparr>)"

text \<open>The whole handler when nothing else happens while the upload is in flight.\<close>

definition handleFileChange ::
    "(js_file \<Rightarrow> js_error + upload_result) \<Rightarrow> int \<Rightarrow> change_event \<Rightarrow> state \<Rightarrow> state" where
  "handleFileChange onUploadFile now e s =
     (case handleFileChange_start e s of
        (None, s') \<Rightarrow> s'
      | (Some f, s') \<Rightarrow> handleFileChange_resume (onUploadFile f) now s')"

text \<open>
  \<^verbatim>\<open>
  try { await onDeleteFile(filename);
        setUploadedFiles(prev => prev.filter(f => f.name !== filename));
  } catch (error) { console.error("Failed to remove file:", error);
                    setUploadStatus(`Error removing file: ${error.message}`); }
  \<close>
\<close>

definition handleRemoveFile_start :: "jsstring \<Rightarrow> state \<Rightarrow> state" where
  "handleRemoveFile_start fname s = s\<lparr>effects := effects s @ [DeleteFile fname]\<rparr>"

definition handleRemoveFile_resume :: "jsstring \<Rightarrow> js_error + unit \<Rightarrow> state \<Rightarrow> state" where
  "handleRemoveFile_resume fname outcome s =
     (case outcome of
        Inr _ \<Rightarrow> s\<lparr>uploadedFiles := filter (\<lambda>f. name f \<noteq> fname) (uploadedFiles s)\<rparr>
      | Inl error \<Rightarrow>
          s\<lparr>effects := effects s @ [ConsoleError (js ''Failed to remove file:'') error],
            uploadStatus := js ''Error removing file: '' @ message error\<rparr>)"

definition handleRemoveFile :: "(jsstring \<Rightarrow> js_error + unit) \<Rightarrow> jsstring \<Rightarrow> state \<Rightarrow> state" where
  "handleRemoveFile onDeleteFile fname s =
     handleRemoveFile_resume fname (onDeleteFile fname) (handleRemoveFile_start fname s)"

text \<open>
  The removal as the specification words it: only the first entry with the given name
  goes, later entries of the same name stay.
\<close>

fun remove_first_named :: "jsstring \<Rightarrow> uploaded_file list \<Rightarrow> uploaded_file list" where
  "remove_first_named fname [] = []"
| "remove_first_named fname (f # fs) =
     (if name f = fname then fs else f # remove_first_named fname fs)"

section \<open>Rendering of the stages\<close>

text \<open>
  A message as the component reads it. The payloads of stage 1, stage 2 and of the two
  metadata fields are handed to the stage components unread; their type is \<open>'p\<close>.
  \<open>None\<close> is an absent (undefined or null) field.
\<close>

record loading_flags =
  loading_stage1 :: bool
  loading_stage2 :: bool
  loading_stage3 :: bool

record stage3_data =
  response :: "jsstring option"

record 'p metadata =
  label_to_model :: "'p option"
  aggregate_rankings :: "'p option"

record 'p message =
  role :: jsstring
  content :: jsstring
  stage1 :: "'p option"
  stage2 :: "'p option"
  stage3 :: "stage3_data option"
  loading :: "loading_flags option"
  metadata :: "'p metadata option"

text \<open>
  What is rendered for a message: the spinner block with its caption, the stage components
  with their props, the text of a user message.
\<close>

datatype 'p element =
    StageLoading jsstring
  | Stage1 'p
  | Stage2 'p "'p option" "'p option"
  | Stage3 stage3_data
  | UserMessage jsstring

text \<open>\<open>msg.loading?.stageN\<close>\<close>

definition loading_flag :: "(loading_flags \<Rightarrow> bool) \<Rightarrow> 'p message \<Rightarrow> bool" where
  "loading_flag sel m = (case loading m of None \<Rightarrow> False | Some l \<Rightarrow> sel l)"

text \<open>\<open>msg.stage3?.response\<close>\<close>

definition stage3_response :: "'p message \<Rightarrow> jsstring option" where
  "stage3_response m = (case stage3 m of None \<Rightarrow> None | Some d \<Rightarrow> response d)"

text \<open>\<open>msg.metadata?.label_to_model\<close> and \<open>msg.metadata?.aggregate_rankings\<close>\<close>

definition metadata_label_to_model :: "'p message \<Rightarrow> 'p option" where
  "metadata_label_to_model m = (case metadata m of None \<Rightarrow> None | Some md \<Rightarrow> label_to_model md)"

definition metadata_aggregate_rankings :: "'p message \<Rightarrow> 'p option" where
  "metadata_aggregate_rankings m =
     (case metadata m of None \<Rightarrow> None | Some md \<Rightarrow> aggregate_rankings md)"

text \<open>\<open>{cond && <X/>}\<close> renders \<open>X\<close> when the condition is truthy and nothing otherwise.\<close>

definition shown :: "bool \<Rightarrow> 'a \<Rightarrow> 'a list" where
  "shown c x = (if c then [x] else [])"

definition shown_opt :: "'a option \<Rightarrow> ('a \<Rightarrow> 'b) \<Rightarrow> 'b list" where
  "shown_opt v f = (case v of None \<Rightarrow> [] | Some x \<Rightarrow> [f x])"

definition render_stage1 :: "'p message \<Rightarrow> 'p element list" where
  "render_stage1 m =
     shown (loading_flag loading_stage1 m)
       (StageLoading (js ''Running Stage 1: Collecting individual responses...''))
     @ shown_opt (stage1 m) Stage1"

definition render_stage2 :: "'p message \<Rightarrow> 'p element list" where
  "render_stage2 m =
     shown (loading_flag loading_stage2 m)
       (StageLoading (js ''Running Stage 2: Peer rankings...''))
     @ shown_opt (stage2 m)
         (\<lambda>r. Stage2 r (metadata_label_to_model m) (metadata_aggregate_rankings m))"

definition render_stage3 :: "'p message \<Rightarrow> 'p element list" where
  "render_stage3 m =
     shown (loading_flag loading_stage3 m \<and> \<not> truthy_opt (stage3_response m))
       (StageLoading (js ''Running Stage 3: Final synthesis...''))
     @ shown_opt (stage3 m) Stage3"

definition render_message :: "'p message \<Rightarrow> 'p element list" where
  "render_message m =
     (if role m = js ''user'' then [UserMessage (content m)]
      else render_stage1 m @ render_stage2 m @ render_stage3 m)"

text \<open>The same in \<open>ChatInterface.jsx\<close>, which has other captions and no stage 2.\<close>

definition render_stage1_frontend :: "'p message \<Rightarrow> 'p element list" where
  "render_stage1_frontend m =
     shown (loading_flag loading_stage1 m)
       (StageLoading (js ''Collecting individual responses...''))
     @ shown_opt (stage1 m) Stage1"

definition render_stage3_frontend :: "'p message \<Rightarrow> 'p element list" where
  "render_stage3_frontend m =
     shown (loading_flag loading_stage3 m \<and> \<not> truthy_opt (stage3_response m))
       (StageLoading (js ''Synthesizing final answer...''))
     @ shown_opt (stage3 m) Stage3"

definition render_message_frontend :: "'p message \<Rightarrow> 'p element list" where
  "render_message_frontend m =
     (if role m = js ''user'' then [UserMessage (content m)]
      else render_stage1_frontend m @ render_stage3_frontend m)"

text \<open>The element is a spinner block, whatever its caption.\<close>

fun is_spinner :: "'p element \<Rightarrow> bool" where
  "is_spinner (StageLoading _) = True"
| "is_spinner _ = False"

section \<open>Sample inputs\<close>

definition a_pdf :: js_file where
  "a_pdf = \<lparr>file_name = js ''a.pdf'', file_bytes = [0x25, 0x50, 0x44, 0x46]\<rparr>"

definition b_txt :: js_file where
  "b_txt = \<lparr>file_name = js ''b.txt'', file_bytes = [0x68, 0x69]\<rparr>"

text \<open>A key-down event that nobody has handled yet.\<close>

definition keydown :: "string \<Rightarrow> bool \<Rightarrow> keyboard_event" where
  "keydown k shift = \<lparr>defaultPrevented = False, key = js k, shiftKey = shift\<rparr>"

text \<open>
  An assistant turn whose stage 2 has arrived while its flag is still set, with both
  metadata fields; the payloads are stood for by their names.
\<close>

definition ranked_message :: "string message" where
  "ranked_message =
     \<lparr>role = js ''assistant'', content = [], stage1 = Some ''responses'',
      stage2 = Some ''rankings'', stage3 = None,
      loading = Some \<lparr>loading_stage1 = False, loading_stage2 = True, loading_stage3 = False\<rparr>,
      metadata = Some \<lparr>label_to_model = Some ''labels'', aggregate_rankings = Some ''aggregate''\<rparr>\<rparr>"

text \<open>
  An assistant turn with \<open>loading.stage3\<close> set and a stage-3 object carrying the given
  response.
\<close>

definition late_flag_message :: "jsstring option \<Rightarrow> unit message" where
  "late_flag_message r =
     \<lparr>role = js ''assistant'', content = [], stage1 = None, stage2 = None,
      stage3 = Some \<lparr>response = r\<rparr>,
      loading = Some \<lparr>loading_stage1 = False, loading_stage2 = False, loading_stage3 = True\<rparr>,
      metadata = None\<rparr>"

text \<open>Two attachments of different names, and two of the same name.\<close>

definition two_files :: "uploaded_file list" where
  "two_files = [\<lparr>name = js ''a.pdf'', id_token = 1\<rparr>, \<lparr>name = js ''b.txt'', id_token = 2\<rparr>]"

definition twice_a_pdf :: "uploaded_file list" where
  "twice_a_pdf = [\<lparr>name = js ''a.pdf'', id_token = 1\<rparr>, \<lparr>name = js ''a.pdf'', id_token = 2\<rparr>]"

section \<open>Evaluations used below\<close>

lemma preventDefault_idem: "preventDefault (preventDefault e) = preventDefault e"
  by (simp add: preventDefault_def)

lemma trim_sp_hi: "trim (js '' hi'') = js ''hi''"
  by (simp add: trim_def js_def is_ws_def)

lemma trim_spaces: "trim (js ''  '') = []"
  by (simp add: trim_def js_def is_ws_def)

lemma uploadedFiles_clear_file_input [simp]:
  "uploadedFiles (clear_file_input s) = uploadedFiles s"
  by (simp add: clear_file_input_def split: option.splits)

lemma uploadStatus_clear_file_input [simp]:
  "uploadStatus (clear_file_input s) = uploadStatus s"
  by (simp add: clear_file_input_def split: option.splits)

text \<open>With a file selected, the handler is its first part followed by its second.\<close>

lemma handleFileChange_settled:
  "first_file e = Some f \<Longrightarrow>
     handleFileChange onUploadFile now e s
       = handleFileChange_resume (onUploadFile f) now
           (s\<lparr>uploadStatus := js ''Uploading...'', effects := effects s @ [UploadFile f]\<rparr>)"
  by (simp add: handleFileChange_def handleFileChange_start_def)

lemma first_file_a_pdf: "first_file \<lparr>target_files = Some [a_pdf]\<rparr> = Some a_pdf"
  by (simp add: first_file_def)

text \<open>Where no entry has the name, filtering the name out changes nothing.\<close>

lemma filter_none_named:
  "filter (\<lambda>f. name f = fname) fs = [] \<Longrightarrow> filter (\<lambda>f. name f \<noteq> fname) fs = fs"
  by (induction fs) (auto split: if_splits)

text \<open>
  Where at most one entry has the name, filtering the name out is removing its first
  entry.
\<close>

lemma filter_is_remove_first:
  "length (filter (\<lambda>f. name f = fname) fs) \<le> 1 \<Longrightarrow>
     filter (\<lambda>f. name f \<noteq> fname) fs = remove_first_named fname fs"
proof (induction fs)
  case Nil
  then show ?case by simp
next
  case (Cons f fs)
  show ?case
  proof (cases "name f = fname")
    case True
    with Cons.prems have "filter (\<lambda>f. name f = fname) fs = []" by simp
    then have "filter (\<lambda>f. name f \<noteq> fname) fs = fs" by (rule filter_none_named)
    with True show ?thesis by simp
  next
    case False
    with Cons show ?thesis by simp
  qed
qed

section \<open>Submission\<close>

text \<open>
  C1, as the code has it. Submitting changes nothing but the event's default-prevented
  flag when the trimmed draft is empty or \<open>isLoading\<close> holds. Otherwise it calls
  \<open>onSendMessage\<close> exactly once, with the draft as typed (not trimmed), and clears the
  draft. The component of \<open>ChatInterface.jsx\<close> receives no \<open>isLoading\<close> and gates on the
  trimmed draft alone.
\<close>

theorem handleSubmit_gate_and_untrimmed_send:
  "(trim (input s) = [] \<or> isLoading \<longrightarrow>
      handleSubmit isLoading e s = (preventDefault e, s))
   \<and> (trim (input s) \<noteq> [] \<and> \<not> isLoading \<longrightarrow>
      handleSubmit isLoading e s =
        (preventDefault e, s\<lparr>effects := effects s @ [SendMessage (input s)], input := []\<rparr>))
   \<and> (trim (input s) = [] \<longrightarrow> handleSubmit_frontend e s = (preventDefault e, s))
   \<and> (trim (input s) \<noteq> [] \<longrightarrow>
      handleSubmit_frontend e s =
        (preventDefault e, s\<lparr>effects := effects s @ [SendMessage (input s)], input := []\<rparr>))"
  by (simp add: handleSubmit_def handleSubmit_frontend_def truthy_def Let_def)

text \<open>
  The theorem at the draft \<open>" hi"\<close> with and without \<open>isLoading\<close>, and at a draft of two
  spaces.
\<close>

theorem handleSubmit_gate_and_untrimmed_send_witness:
  "handleSubmit False \<lparr>defaultPrevented = False\<rparr> (initial\<lparr>input := js '' hi''\<rparr>)
     = (\<lparr>defaultPrevented = True\<rparr>, initial\<lparr>effects := [SendMessage (js '' hi'')], input := []\<rparr>)
   \<and> handleSubmit True \<lparr>defaultPrevented = False\<rparr> (initial\<lparr>input := js '' hi''\<rparr>)
     = (\<lparr>defaultPrevented = True\<rparr>, initial\<lparr>input := js '' hi''\<rparr>)
   \<and> handleSubmit_frontend \<lparr>defaultPrevented = False\<rparr> (initial\<lparr>input := js ''  ''\<rparr>)
     = (\<lparr>defaultPrevented = True\<rparr>, initial\<lparr>input := js ''  ''\<rparr>)
   \<and> handleSubmit_frontend \<lparr>defaultPrevented = False\<rparr> (initial\<lparr>input := js '' hi''\<rparr>)
     = (\<lparr>defaultPrevented = True\<rparr>, initial\<lparr>effects := [SendMessage (js '' hi'')], input := []\<rparr>)"
  using handleSubmit_gate_and_untrimmed_send
          [of "initial\<lparr>input := js '' hi''\<rparr>" False "\<lparr>defaultPrevented = False\<rparr>"]
        handleSubmit_gate_and_untrimmed_send
          [of "initial\<lparr>input := js '' hi''\<rparr>" True "\<lparr>defaultPrevented = False\<rparr>"]
        handleSubmit_gate_and_untrimmed_send
          [of "initial\<lparr>input := js ''  ''\<rparr>" False "\<lparr>defaultPrevented = False\<rparr>"]
  by (simp add: trim_sp_hi trim_spaces preventDefault_def initial_def) (simp add: js_def)

text \<open>
  C1 as stated asks for the trimmed text to be sent. For the draft \<open>" hi"\<close> the one call
  made carries \<open>" hi"\<close>, which is not the trimmed draft \<open>"hi"\<close>.
\<close>

theorem handleSubmit_sends_untrimmed_draft:
  "effects (snd (handleSubmit False \<lparr>defaultPrevented = False\<rparr> (initial\<lparr>input := js '' hi''\<rparr>)))
     = [SendMessage (js '' hi'')]
   \<and> [SendMessage (js '' hi'')] \<noteq> [SendMessage (trim (js '' hi''))]"
  by (simp add: handleSubmit_def truthy_def Let_def initial_def trim_sp_hi) (simp add: js_def)

text \<open>
  C4. In every state the send button is disabled exactly when it is not the case that the
  trimmed draft is non-empty and \<open>isLoading\<close> is false, and the button agrees with the
  guard of \<open>handleSubmit\<close>: disabled, a submission leaves the state as it is; enabled, a
  submission sends. In \<open>ChatInterface.jsx\<close>, where there is no \<open>isLoading\<close>, the button
  and the guard agree in the same way.
\<close>

theorem send_button_disabled_matches_handleSubmit:
  "send_button_disabled isLoading s = (\<not> (trim (input s) \<noteq> [] \<and> \<not> isLoading))
   \<and> (send_button_disabled isLoading s \<longrightarrow> snd (handleSubmit isLoading e s) = s)
   \<and> (\<not> send_button_disabled isLoading s \<longrightarrow>
        effects (snd (handleSubmit isLoading e s)) = effects s @ [SendMessage (input s)])
   \<and> (send_button_disabled_frontend s \<longrightarrow> snd (handleSubmit_frontend e s) = s)
   \<and> (\<not> send_button_disabled_frontend s \<longrightarrow>
        effects (snd (handleSubmit_frontend e s)) = effects s @ [SendMessage (input s)])"
  by (simp add: send_button_disabled_def send_button_disabled_frontend_def handleSubmit_def
        handleSubmit_frontend_def truthy_def Let_def)

theorem send_button_disabled_matches_handleSubmit_witness:
  "\<not> send_button_disabled False (initial\<lparr>input := js '' hi''\<rparr>)
   \<and> effects (snd (handleSubmit False \<lparr>defaultPrevented = False\<rparr> (initial\<lparr>input := js '' hi''\<rparr>)))
       = [SendMessage (js '' hi'')]
   \<and> send_button_disabled True (initial\<lparr>input := js '' hi''\<rparr>)
   \<and> snd (handleSubmit True \<lparr>defaultPrevented = False\<rparr> (initial\<lparr>input := js '' hi''\<rparr>))
       = initial\<lparr>input := js '' hi''\<rparr>
   \<and> send_button_disabled False (initial\<lparr>input := js ''  ''\<rparr>)
   \<and> send_button_disabled_frontend (initial\<lparr>input := js ''  ''\<rparr>)
   \<and> snd (handleSubmit_frontend \<lparr>defaultPrevented = False\<rparr> (initial\<lparr>input := js ''  ''\<rparr>))
       = initial\<lparr>input := js ''  ''\<rparr>
   \<and> \<not> send_button_disabled_frontend (initial\<lparr>input := js '' hi''\<rparr>)
   \<and> effects (snd (handleSubmit_frontend \<lparr>defaultPrevented = False\<rparr>
         (initial\<lparr>input := js '' hi''\<rparr>)))
       = [SendMessage (js '' hi'')]"
  using send_button_disabled_matches_handleSubmit
          [of False "initial\<lparr>input := js '' hi''\<rparr>" "\<lparr>defaultPrevented = False\<rparr>"]
        send_button_disabled_matches_handleSubmit
          [of True "initial\<lparr>input := js '' hi''\<rparr>" "\<lparr>defaultPrevented = False\<rparr>"]
        send_button_disabled_matches_handleSubmit
          [of False "initial\<lparr>input := js ''  ''\<rparr>" "\<lparr>defaultPrevented = False\<rparr>"]
  by (simp add: trim_sp_hi trim_spaces send_button_disabled_frontend_def truthy_def initial_def)
     (simp add: js_def)

text \<open>
  C9. A key-down of Enter without Shift does exactly what \<open>handleSubmit\<close> does on the same
  event and state. A key-down of Enter with Shift, and of any other key, leaves the state
  and the event as they are: nothing is sent, and the default action of the text area (for
  Shift+Enter, inserting the newline) is not prevented.
\<close>

theorem handleKeyDown_enter_is_submit:
  "(key e = js ''Enter'' \<and> \<not> shiftKey e \<longrightarrow>
      handleKeyDown isLoading e s = handleSubmit isLoading e s
      \<and> handleKeyDown_frontend e s = handleSubmit_frontend e s)
   \<and> (key e = js ''Enter'' \<and> shiftKey e \<longrightarrow>
      handleKeyDown isLoading e s = (e, s) \<and> handleKeyDown_frontend e s = (e, s))
   \<and> (key e \<noteq> js ''Enter'' \<longrightarrow>
      handleKeyDown isLoading e s = (e, s) \<and> handleKeyDown_frontend e s = (e, s))"
  by (simp add: handleKeyDown_def handleKeyDown_frontend_def handleSubmit_def
        handleSubmit_frontend_def preventDefault_idem Let_def)

theorem handleKeyDown_enter_is_submit_witness:
  "handleKeyDown False (keydown ''Enter'' False) (initial\<lparr>input := js '' hi''\<rparr>)
     = handleSubmit False (keydown ''Enter'' False) (initial\<lparr>input := js '' hi''\<rparr>)
   \<and> handleKeyDown False (keydown ''Enter'' True) (initial\<lparr>input := js '' hi''\<rparr>)
     = (keydown ''Enter'' True, initial\<lparr>input := js '' hi''\<rparr>)
   \<and> handleKeyDown False (keydown ''a'' False) (initial\<lparr>input := js '' hi''\<rparr>)
     = (keydown ''a'' False, initial\<lparr>input := js '' hi''\<rparr>)"
proof -
  have k1: "key (keydown ''Enter'' False) = js ''Enter'' \<and> \<not> shiftKey (keydown ''Enter'' False)"
    by (simp add: keydown_def)
  have k2: "key (keydown ''Enter'' True) = js ''Enter'' \<and> shiftKey (keydown ''Enter'' True)"
    by (simp add: keydown_def)
  have k3: "key (keydown ''a'' False) \<noteq> js ''Enter''"
    by (simp add: keydown_def js_def)
  from k1 k2 k3
    handleKeyDown_enter_is_submit [of "keydown ''Enter'' False" False "initial\<lparr>input := js '' hi''\<rparr>"]
    handleKeyDown_enter_is_submit [of "keydown ''Enter'' True" False "initial\<lparr>input := js '' hi''\<rparr>"]
    handleKeyDown_enter_is_submit [of "keydown ''a'' False" False "initial\<lparr>input := js '' hi''\<rparr>"]
  show ?thesis by simp
qed

section \<open>Uploading\<close>

text \<open>
  C10. A change event whose file list is absent or empty changes nothing: the handler
  stops before its first assignment, so no upload is requested and the status, the
  attachments and the trace of calls are those of before.
\<close>

theorem handleFileChange_without_file_is_noop:
  "target_files e = None \<or> target_files e = Some [] \<Longrightarrow>
     handleFileChange onUploadFile now e s = s \<and> handleFileChange_start e s = (None, s)"
  by (auto simp add: handleFileChange_def handleFileChange_start_def first_file_def)

theorem handleFileChange_without_file_is_noop_witness:
  "handleFileChange (\<lambda>_. Inr \<lparr>filename = js ''a.pdf''\<rparr>) 1700000000000
      \<lparr>target_files = Some []\<rparr> initial = initial
   \<and> handleFileChange (\<lambda>_. Inr \<lparr>filename = js ''a.pdf''\<rparr>) 1700000000000
      \<lparr>target_files = None\<rparr> initial = initial"
  using handleFileChange_without_file_is_noop
          [of "\<lparr>target_files = Some []\<rparr>" "\<lambda>_. Inr \<lparr>filename = js ''a.pdf''\<rparr>" 1700000000000 initial]
        handleFileChange_without_file_is_noop
          [of "\<lparr>target_files = None\<rparr>" "\<lambda>_. Inr \<lparr>filename = js ''a.pdf''\<rparr>" 1700000000000 initial]
  by simp

text \<open>
  C5. When \<open>onUploadFile\<close> fails, the attachments are those of before and the status is
  \<open>"Error: "\<close> followed by the error's message: not empty, and containing the message.
  The same holds of the second part of the handler alone, on whatever state the component
  has when the upload settles.
\<close>

theorem handleFileChange_failure_keeps_files:
  assumes "first_file e = Some f" and "onUploadFile f = Inl err"
  shows "uploadedFiles (handleFileChange onUploadFile now e s) = uploadedFiles s
     \<and> uploadStatus (handleFileChange onUploadFile now e s) = js ''Error: '' @ message err
     \<and> uploadStatus (handleFileChange onUploadFile now e s) \<noteq> []
     \<and> sublist (message err) (uploadStatus (handleFileChange onUploadFile now e s))
     \<and> uploadedFiles (handleFileChange_resume (Inl err) now s) = uploadedFiles s
     \<and> uploadStatus (handleFileChange_resume (Inl err) now s) = js ''Error: '' @ message err"
proof -
  let ?s' = "handleFileChange onUploadFile now e s"
  have files: "uploadedFiles ?s' = uploadedFiles s"
    using assms by (simp add: handleFileChange_settled handleFileChange_resume_def)
  have status: "uploadStatus ?s' = js ''Error: '' @ message err"
    using assms by (simp add: handleFileChange_settled handleFileChange_resume_def)
  have nonempty: "uploadStatus ?s' \<noteq> []"
    unfolding status by (simp add: js_def)
  have contains: "sublist (message err) (uploadStatus ?s')"
    unfolding status by (rule sublist_append_leftI)
  have resume: "uploadedFiles (handleFileChange_resume (Inl err) now s) = uploadedFiles s
     \<and> uploadStatus (handleFileChange_resume (Inl err) now s) = js ''Error: '' @ message err"
    by (simp add: handleFileChange_resume_def)
  from files status nonempty contains resume show ?thesis by simp
qed

theorem handleFileChange_failure_keeps_files_witness:
  "first_file \<lparr>target_files = Some [a_pdf]\<rparr> = Some a_pdf
   \<and> uploadedFiles (handleFileChange (\<lambda>_. Inl \<lparr>message = js ''too large''\<rparr>) 1700000000000
        \<lparr>target_files = Some [a_pdf]\<rparr> initial) = []
   \<and> uploadStatus (handleFileChange (\<lambda>_. Inl \<lparr>message = js ''too large''\<rparr>) 1700000000000
        \<lparr>target_files = Some [a_pdf]\<rparr> initial) = js ''Error: too large''"
proof -
  have o: "(\<lambda>_. Inl \<lparr>message = js ''too large''\<rparr>) a_pdf
             = (Inl \<lparr>message = js ''too large''\<rparr> :: js_error + upload_result)"
    by simp
  show ?thesis
    using first_file_a_pdf
      handleFileChange_failure_keeps_files [OF first_file_a_pdf o, of 1700000000000 initial]
    by (simp add: initial_def js_def)
qed

text \<open>
  C6. When \<open>onUploadFile\<close> succeeds, the attachments are those of before followed by one
  new entry, named as the result's \<open>filename\<close> says and identified by the clock reading,
  and the status is empty. The same holds of the second part of the handler alone.
\<close>

theorem handleFileChange_success_appends:
  "first_file e = Some f \<Longrightarrow> onUploadFile f = Inr res \<Longrightarrow>
     uploadedFiles (handleFileChange onUploadFile now e s)
       = uploadedFiles s @ [\<lparr>name = filename res, id_token = now\<rparr>]
     \<and> uploadStatus (handleFileChange onUploadFile now e s) = []
     \<and> uploadedFiles (handleFileChange_resume (Inr res) now s)
       = uploadedFiles s @ [\<lparr>name = filename res, id_token = now\<rparr>]
     \<and> uploadStatus (handleFileChange_resume (Inr res) now s) = []"
  by (simp add: handleFileChange_settled handleFileChange_resume_def)

theorem handleFileChange_success_appends_witness:
  "first_file \<lparr>target_files = Some [a_pdf]\<rparr> = Some a_pdf
   \<and> uploadedFiles (handleFileChange (\<lambda>_. Inr \<lparr>filename = js ''a.pdf''\<rparr>) 1700000000000
        \<lparr>target_files = Some [a_pdf]\<rparr> initial)
       = [\<lparr>name = js ''a.pdf'', id_token = 1700000000000\<rparr>]
   \<and> uploadStatus (handleFileChange (\<lambda>_. Inr \<lparr>filename = js ''a.pdf''\<rparr>) 1700000000000
        \<lparr>target_files = Some [a_pdf]\<rparr> initial) = []"
proof -
  have o: "(\<lambda>_. Inr \<lparr>filename = js ''a.pdf''\<rparr>) a_pdf
             = (Inr \<lparr>filename = js ''a.pdf''\<rparr> :: js_error + upload_result)"
    by simp
  show ?thesis
    using first_file_a_pdf
      handleFileChange_success_appends [OF first_file_a_pdf o, of 1700000000000 initial]
    by (simp add: initial_def)
qed

text \<open>
  C8 on the code. Two files are selected one after the other, before either upload has
  settled; both uploads then succeed and find the same clock reading. The two entries carry
  the same \<open>id\<close>, which the file list uses as the \<open>key\<close> of its chips.
\<close>

theorem uploads_settled_in_one_millisecond_share_id:
  "map id_token (uploadedFiles
     (handleFileChange_resume (Inr \<lparr>filename = js ''b.txt''\<rparr>) 1700000000000
       (handleFileChange_resume (Inr \<lparr>filename = js ''a.pdf''\<rparr>) 1700000000000
         (snd (handleFileChange_start \<lparr>target_files = Some [b_txt]\<rparr>
           (snd (handleFileChange_start \<lparr>target_files = Some [a_pdf]\<rparr> initial)))))))
   = [1700000000000, 1700000000000]
   \<and> \<not> distinct (map id_token (uploadedFiles
     (handleFileChange_resume (Inr \<lparr>filename = js ''b.txt''\<rparr>) 1700000000000
       (handleFileChange_resume (Inr \<lparr>filename = js ''a.pdf''\<rparr>) 1700000000000
         (snd (handleFileChange_start \<lparr>target_files = Some [b_txt]\<rparr>
           (snd (handleFileChange_start \<lparr>target_files = Some [a_pdf]\<rparr> initial))))))))"
  by (simp add: handleFileChange_resume_def handleFileChange_start_def first_file_def
        clear_file_input_def initial_def)

section \<open>Removing\<close>

text \<open>
  C3, as the code has it. When \<open>onDeleteFile\<close> succeeds, every entry with the given name
  goes and the others stay, in their order, with the status untouched; where at most one
  entry has the name this is the removal of the first such entry. When \<open>onDeleteFile\<close>
  fails, the attachments are those of before and the status is \<open>"Error removing file: "\<close>
  followed by the error's message, hence not empty.
\<close>

theorem handleRemoveFile_removes_all_named:
  "(onDeleteFile fname = Inr u \<longrightarrow>
      uploadedFiles (handleRemoveFile onDeleteFile fname s)
        = filter (\<lambda>f. name f \<noteq> fname) (uploadedFiles s)
      \<and> uploadStatus (handleRemoveFile onDeleteFile fname s) = uploadStatus s
      \<and> (length (filter (\<lambda>f. name f = fname) (uploadedFiles s)) \<le> 1 \<longrightarrow>
           uploadedFiles (handleRemoveFile onDeleteFile fname s)
             = remove_first_named fname (uploadedFiles s)))
   \<and> (onDeleteFile fname = Inl err \<longrightarrow>
      uploadedFiles (handleRemoveFile onDeleteFile fname s) = uploadedFiles s
      \<and> uploadStatus (handleRemoveFile onDeleteFile fname s)
          = js ''Error removing file: '' @ message err
      \<and> uploadStatus (handleRemoveFile onDeleteFile fname s) \<noteq> [])"
  by (simp add: handleRemoveFile_def handleRemoveFile_start_def handleRemoveFile_resume_def
        filter_is_remove_first js_def)

theorem handleRemoveFile_removes_all_named_witness:
  "uploadedFiles (handleRemoveFile (\<lambda>_. Inr ()) (js ''a.pdf'')
      (initial\<lparr>uploadedFiles := two_files\<rparr>))
     = [\<lparr>name = js ''b.txt'', id_token = 2\<rparr>]
   \<and> remove_first_named (js ''a.pdf'') two_files = [\<lparr>name = js ''b.txt'', id_token = 2\<rparr>]
   \<and> uploadStatus (handleRemoveFile (\<lambda>_. Inl \<lparr>message = js ''not found''\<rparr>) (js ''a.pdf'')
      (initial\<lparr>uploadedFiles := two_files\<rparr>))
     = js ''Error removing file: not found''
   \<and> uploadedFiles (handleRemoveFile (\<lambda>_. Inl \<lparr>message = js ''not found''\<rparr>) (js ''a.pdf'')
      (initial\<lparr>uploadedFiles := two_files\<rparr>))
     = two_files"
  using handleRemoveFile_removes_all_named
          [of "\<lambda>_. Inr ()" "js ''a.pdf''" "()" "initial\<lparr>uploadedFiles := two_files\<rparr>"]
        handleRemoveFile_removes_all_named
          [of "\<lambda>_. Inl \<lparr>message = js ''not found''\<rparr>" "js ''a.pdf''" _
              "initial\<lparr>uploadedFiles := two_files\<rparr>" "\<lparr>message = js ''not found''\<rparr>"]
  by (simp add: initial_def two_files_def js_def)

text \<open>
  C3 as stated keeps later entries of the same name. With \<open>a.pdf\<close> attached twice, a
  successful removal of \<open>a.pdf\<close> leaves no entry, where removing the first one only would
  leave the second.
\<close>

theorem handleRemoveFile_drops_later_duplicate:
  "uploadedFiles (handleRemoveFile (\<lambda>_. Inr ()) (js ''a.pdf'')
      (initial\<lparr>uploadedFiles := twice_a_pdf\<rparr>))
     = []
   \<and> remove_first_named (js ''a.pdf'') twice_a_pdf = [\<lparr>name = js ''a.pdf'', id_token = 2\<rparr>]"
  by (simp add: handleRemoveFile_def handleRemoveFile_start_def handleRemoveFile_resume_def
        initial_def twice_a_pdf_def)

section \<open>Stages\<close>

text \<open>
  C7. When a message has stage-2 data, what stage 2 renders apart from its spinner is the
  one \<open>Stage2\<close> component, given the data as its rankings and, as its label mapping and
  aggregate rankings, the two fields of the message's own metadata (nothing where the
  metadata or the field is absent). For a message that is not the user's, that component
  is part of the rendered message.
\<close>

theorem render_stage2_props_from_metadata:
  "stage2 m = Some r \<Longrightarrow>
     filter (\<lambda>x. \<not> is_spinner x) (render_stage2 m)
       = [Stage2 r (metadata_label_to_model m) (metadata_aggregate_rankings m)]
     \<and> (role m \<noteq> js ''user'' \<longrightarrow>
          Stage2 r (metadata_label_to_model m) (metadata_aggregate_rankings m)
            \<in> set (render_message m))
     \<and> (\<forall>md. metadata m = Some md \<longrightarrow>
          metadata_label_to_model m = label_to_model md
          \<and> metadata_aggregate_rankings m = aggregate_rankings md)"
  by (simp add: render_stage2_def render_message_def shown_def shown_opt_def
        metadata_label_to_model_def metadata_aggregate_rankings_def)

theorem render_stage2_props_from_metadata_witness:
  "filter (\<lambda>x. \<not> is_spinner x) (render_stage2 ranked_message)
     = [Stage2 ''rankings'' (Some ''labels'') (Some ''aggregate'')]
   \<and> Stage2 ''rankings'' (Some ''labels'') (Some ''aggregate'') \<in> set (render_message ranked_message)"
proof -
  have s2: "stage2 ranked_message = Some ''rankings''"
    by (simp add: ranked_message_def)
  have notuser: "role ranked_message \<noteq> js ''user''"
    by (simp add: ranked_message_def js_def)
  have md: "metadata ranked_message
              = Some \<lparr>label_to_model = Some ''labels'', aggregate_rankings = Some ''aggregate''\<rparr>"
    by (simp add: ranked_message_def)
  have lm: "metadata_label_to_model ranked_message = Some ''labels''"
    and ag: "metadata_aggregate_rankings ranked_message = Some ''aggregate''"
    using render_stage2_props_from_metadata [OF s2] md by simp_all
  from render_stage2_props_from_metadata [OF s2] notuser show ?thesis
    unfolding lm ag by simp
qed

text \<open>
  C2, as the code has it. When a message has a stage-3 object whose response is there and
  not empty, stage 3 renders the \<open>Stage3\<close> component and no spinner, whatever the loading
  flag says; so in both files.
\<close>

theorem render_stage3_response_suppresses_spinner:
  "stage3 m = Some d \<Longrightarrow> response d = Some r \<Longrightarrow> r \<noteq> [] \<Longrightarrow>
     render_stage3 m = [Stage3 d] \<and> render_stage3_frontend m = [Stage3 d]"
  by (simp add: render_stage3_def render_stage3_frontend_def shown_def shown_opt_def
        stage3_response_def truthy_opt_def truthy_def)

theorem render_stage3_response_suppresses_spinner_witness:
  "render_stage3 (late_flag_message (Some (js ''Paris'')))
     = [Stage3 \<lparr>response = Some (js ''Paris'')\<rparr>]
   \<and> loading_flag loading_stage3 (late_flag_message (Some (js ''Paris'')))"
  using render_stage3_response_suppresses_spinner
    [of "late_flag_message (Some (js ''Paris''))" "\<lparr>response = Some (js ''Paris'')\<rparr>"
        "js ''Paris''"]
  by (simp add: late_flag_message_def loading_flag_def js_def)

text \<open>
  C2 as stated lets the presence of stage-3 data alone suppress the spinner. With the flag
  set and a stage-3 object whose response is the empty string, the spinner is rendered,
  followed by the \<open>Stage3\<close> component.
\<close>

theorem render_stage3_spinner_beside_empty_response:
  "render_stage3 (late_flag_message (Some []))
     = [StageLoading (js ''Running Stage 3: Final synthesis...''), Stage3 \<lparr>response = Some []\<rparr>]"
  by (simp add: render_stage3_def shown_def shown_opt_def stage3_response_def truthy_opt_def
        truthy_def loading_flag_def late_flag_message_def)

end
